theory Spec2Isabelle
  imports Complex_Main
begin

section \<open>Single-precision arithmetic (Go \<open>float32\<close>)\<close>

text \<open>
  The coordinates and sizes of the toolkit are \<open>float32\<close> numbers, and the hit test of the
  cover image computes with them. A finite \<open>float32\<close> is an integer significand of at most
  24 bits times a power of two, the power no smaller than \<open>2 ^ - 149\<close> and the magnitude
  below \<open>2 ^ 128\<close>; \<open>Finite m e\<close> stands for \<open>m * 2 ^ e\<close>. Each operation gives the exact
  result rounded to the nearest such number, ties to the even significand; a result whose
  rounded magnitude reaches \<open>2 ^ 128\<close> is an infinity (\<open>Infinity True\<close> is the negative one).
  The sign of a zero is not kept: sum, difference, product, halving and comparison, the
  operations used here, do not tell the two zeros apart in any result other than a zero.
  One number has several representations (\<open>Finite 60 0\<close> and \<open>Finite 15 2\<close>); the operations
  respect the value, which \<open>valof\<close> reads as a real number.
\<close>

text \<open>The number of binary digits of a natural number.\<close>

fun bitlen :: "nat \<Rightarrow> nat" where
  "bitlen n = (if n = 0 then 0 else Suc (bitlen (n div 2)))"

declare bitlen.simps [simp del]

datatype float32 = Finite int int | Infinity bool | NaN

text \<open>\<open>n / 2 ^ s\<close> rounded to the nearest natural number, ties to the even one (\<open>0 < s\<close>).\<close>

definition nearestEven :: "nat \<Rightarrow> nat \<Rightarrow> nat" where
  "nearestEven n s =
     (let d = 2 ^ s;
          q = n div d;
          r = n mod d;
          h = 2 ^ (s - 1)
      in if r < h then q else if h < r then q + 1 else if even q then q else q + 1)"

text \<open>
  The number of low digits that \<open>n * 2 ^ e\<close> loses: those beyond 24 significant ones, and
  those below \<open>2 ^ - 149\<close>.
\<close>

definition roundShift :: "nat \<Rightarrow> int \<Rightarrow> int" where
  "roundShift n e = max (int (bitlen n) - 24) (- 149 - e)"

text \<open>The \<open>float32\<close> nearest to the exact number \<open>m * 2 ^ e\<close>.\<close>

definition round32 :: "int \<Rightarrow> int \<Rightarrow> float32" where
  "round32 m e =
     (if m = 0 then Finite 0 0
      else
        (let n = nat \<bar>m\<bar>;
             s = roundShift n e;
             q = (if s \<le> 0 then n else nearestEven n (nat s));
             e' = (if s \<le> 0 then e else e + s)
         in if 128 < int (bitlen q) + e' then Infinity (m < 0)
            else Finite (if m < 0 then - int q else int q) e'))"








fun isFinite :: "float32 \<Rightarrow> bool" where
  "isFinite (Finite m e) = True"
| "isFinite x = False"

text \<open>The real number a finite \<open>float32\<close> denotes (zero, by convention, for the others).\<close>

fun valof :: "float32 \<Rightarrow> real" where
  "valof (Finite m e) = of_int m * 2 powi e"
| "valof x = 0"



section \<open>Grid item widget (ui/widgets/gridviewitem.go)\<close>

subsection \<open>Toolkit values\<close>

text \<open>
  \<open>fyne.Size\<close> and \<open>fyne.Position\<close> are pairs of \<open>float32\<close> numbers. The two button sizes
  \<open>60 \<times> 60\<close> and \<open>65 \<times> 65\<close> are exact in \<open>float32\<close>.
\<close>

record Size =
  Width :: float32
  Height :: float32


definition NewSize :: "float32 \<Rightarrow> float32 \<Rightarrow> Size" where
  "NewSize w h = \<lparr>Width = w, Height = h\<rparr>"


definition playBtnSize :: Size where
  "playBtnSize = NewSize (Finite 60 0) (Finite 60 0)"

definition playBtnHoveredSize :: Size where
  "playBtnHoveredSize = NewSize (Finite 65 0) (Finite 65 0)"

text \<open>
  The play button is a \<open>canvas.Image\<close> of the toolkit: of its fields the widget code
  touches the minimum size (through \<open>SetMinSize\<close> and \<open>MinSize\<close>) and the exported \<open>Hidden\<close>
  flag.
\<close>

record canvas_Image =
  MinSize :: Size
  Hidden :: bool

definition SetMinSize :: "Size \<Rightarrow> canvas_Image \<Rightarrow> canvas_Image" where
  "SetMinSize s im = im\<lparr>MinSize := s\<rparr>"

subsection \<open>coverImage\<close>

text \<open>
  \<open>size'\<close> is the size of the widget itself, which the embedded \<open>BaseWidget\<close> holds and
  \<open>Size()\<close> reads; the layout of the enclosing grid assigns it.
\<close>

record coverImage =
  size' :: Size
  playbtn :: canvas_Image
  mouseInsideBtn :: bool

text \<open>\<open>newCoverImage\<close>: the button starts hidden, at its default size.\<close>

definition newCoverImage :: coverImage where
  "newCoverImage =
     \<lparr>size' = NewSize (Finite 0 0) (Finite 0 0),
      playbtn = (SetMinSize playBtnSize
                   \<lparr>MinSize = NewSize (Finite 0 0) (Finite 0 0), Hidden = False\<rparr>)\<lparr>Hidden := True\<rparr>,
      mouseInsideBtn = False\<rparr>"


definition MouseOut :: "coverImage \<Rightarrow> coverImage" where
  "MouseOut a = (a\<lparr>mouseInsideBtn := False\<rparr>)\<lparr>playbtn := (playbtn a)\<lparr>Hidden := True\<rparr>\<rparr>"

definition ResetPlayButton :: "coverImage \<Rightarrow> coverImage" where
  "ResetPlayButton a =
     (let a1 = a\<lparr>playbtn := SetMinSize playBtnSize (playbtn a)\<rparr>;
          a2 = a1\<lparr>mouseInsideBtn := False\<rparr>
      in a2\<lparr>playbtn := (playbtn a2)\<lparr>Hidden := True\<rparr>\<rparr>)"







subsection \<open>GridViewItemModel and GridViewItem\<close>

record GridViewItemModel =
  Name :: string
  ID :: string
  CoverArtID :: string
  Secondary :: string
  SecondaryID :: string

text \<open>
  Modelled from the spec: \<open>CustomHyperlink\<close> (package widgets) is not among the sources.
  The spec calls the two hyperlinks of an item its "two text labels"; the model keeps the
  displayed text and the exported \<open>Disabled\<close> flag that \<open>Update\<close> assigns, and \<open>SetText\<close>
  replaces the displayed text.
\<close>

record CustomHyperlink =
  Text :: string
  Disabled :: bool

definition NewCustomHyperlink :: CustomHyperlink where
  "NewCustomHyperlink = \<lparr>Text = [], Disabled = False\<rparr>"

definition SetText :: "string \<Rightarrow> CustomHyperlink \<Rightarrow> CustomHyperlink" where
  "SetText t h = h\<lparr>Text := t\<rparr>"

record GridViewItem =
  itemID :: string
  secondaryID :: string
  primaryText :: CustomHyperlink
  secondaryText :: CustomHyperlink
  Cover :: coverImage

definition NewGridViewItem :: GridViewItem where
  "NewGridViewItem =
     \<lparr>itemID = [], secondaryID = [],
      primaryText = NewCustomHyperlink, secondaryText = NewCustomHyperlink,
      Cover = newCoverImage\<rparr>"

definition NeedsUpdate :: "GridViewItem \<Rightarrow> GridViewItemModel \<Rightarrow> bool" where
  "NeedsUpdate g model \<longleftrightarrow> itemID g \<noteq> ID model \<or> secondaryID g \<noteq> SecondaryID model"

definition Update :: "GridViewItemModel \<Rightarrow> GridViewItem \<Rightarrow> GridViewItem" where
  "Update model g =
     (let g1 = g\<lparr>itemID := ID model\<rparr>;
          g2 = g1\<lparr>secondaryID := SecondaryID model\<rparr>;
          g3 = g2\<lparr>primaryText := SetText (Name model) (primaryText g2)\<rparr>;
          g4 = g3\<lparr>secondaryText := (secondaryText g3)\<lparr>Disabled := (SecondaryID model = [])\<rparr>\<rparr>;
          g5 = g4\<lparr>secondaryText := SetText (Secondary model) (secondaryText g4)\<rparr>
      in g5\<lparr>Cover := ResetPlayButton (Cover g5)\<rparr>)"

definition ItemID :: "GridViewItem \<Rightarrow> string" where
  "ItemID g = itemID g"

section \<open>Grid view page (ui/browsing/gridviewpage.go)\<close>

subsection \<open>Collaborators of the page\<close>

text \<open>
  Modelled from the spec: \<open>mediaprovider.AlbumFilter\<close> is not among the sources. The spec
  describes it as a "value type carrying genre/year/favorite predicates"; the page code
  reads its \<open>Genres\<close> field and builds its zero value \<open>AlbumFilter{}\<close>. A \<open>*AlbumFilter\<close> is an
  option: \<open>None\<close> is the nil pointer.
\<close>

record AlbumFilter =
  MinYear :: int
  MaxYear :: int
  Genres :: "string list"
  ExcludeFavorited :: bool
  ExcludeUnfavorited :: bool

definition zeroAlbumFilter :: AlbumFilter where
  "zeroAlbumFilter =
     \<lparr>MinYear = 0, MaxYear = 0, Genres = [], ExcludeFavorited = False, ExcludeUnfavorited = False\<rparr>"

text \<open>
  Modelled from the spec: \<open>widgets.GridView\<close> and \<open>widgets.GridViewState\<close> are not among the
  sources. The spec describes the state as an "opaque snapshot of a grid's scroll position
  and loaded items, used to restore a page without re-fetching" (glossary: "load progress
  and scroll position") and the grid as "driven by an iterator abstraction". The state
  therefore holds the placeholder resource, the driving iterator (absent once the grid
  has been cleared), the items loaded so far and the scroll position; the live widget
  holds one such state. \<open>SaveToState\<close> hands out a copy of it, \<open>ResetFromState\<close> and
  \<open>NewGridViewFromState\<close> install the snapshot they are given, \<open>Reset\<close> starts afresh from an
  iterator, \<open>Clear\<close> drops iterator and items. The spec does not say what the two restoring
  functions do with a nil snapshot; they have to read through the pointer, which in Go is
  a panic, and the model returns it as an error.
\<close>

record 'it GridViewState =
  Placeholder :: string
  gvIter :: "'it option"
  gvItems :: "GridViewItemModel list"
  scrollPos :: int

record 'it GridView =
  gvState :: "'it GridViewState"

datatype error = NilPointerDereference

definition NewGridView :: "'it \<Rightarrow> string \<Rightarrow> 'it GridView" where
  "NewGridView it placeholder =
     \<lparr>gvState = \<lparr>Placeholder = placeholder, gvIter = Some it, gvItems = [], scrollPos = 0\<rparr>\<rparr>"

definition Reset :: "'it \<Rightarrow> 'it GridView \<Rightarrow> 'it GridView" where
  "Reset it g = g\<lparr>gvState := (gvState g)\<lparr>gvIter := Some it, gvItems := [], scrollPos := 0\<rparr>\<rparr>"

definition Clear :: "'it GridView \<Rightarrow> 'it GridView" where
  "Clear g = g\<lparr>gvState := (gvState g)\<lparr>gvIter := None, gvItems := [], scrollPos := 0\<rparr>\<rparr>"

definition SaveToState :: "'it GridView \<Rightarrow> 'it GridViewState" where
  "SaveToState g = gvState g"

definition ResetFromState :: "'it GridViewState option \<Rightarrow> 'it GridView \<Rightarrow> error + 'it GridView" where
  "ResetFromState state g =
     (case state of
        None \<Rightarrow> Inl NilPointerDereference
      | Some s \<Rightarrow> Inr (g\<lparr>gvState := s\<rparr>))"

definition NewGridViewFromState :: "'it GridViewState option \<Rightarrow> error + 'it GridView" where
  "NewGridViewFromState state =
     (case state of
        None \<Rightarrow> Inl NilPointerDereference
      | Some s \<Rightarrow> Inr \<lparr>gvState = s\<rparr>)"

text \<open>
  Modelled from the spec: \<open>util.WidgetPool\<close> is not among the sources. The spec describes it
  as "a free list keyed by widget kind, checked out on page construction, checked in on
  page teardown". The page only uses the \<open>WidgetTypeGridView\<close> kind, so the pool is the list
  of grid widgets that are free; \<open>Obtain\<close> answers nil (\<open>None\<close>) on an empty list. The pool is
  shared between pages, so it is passed to and returned from the functions that use it,
  and the page's pointer to it is not a field of the model.
\<close>

type_synonym 'it WidgetPool = "'it GridView list"

definition Obtain :: "'it WidgetPool \<Rightarrow> 'it GridView option \<times> 'it WidgetPool" where
  "Obtain pool = (case pool of [] \<Rightarrow> (None, []) | g # gs \<Rightarrow> (Some g, gs))"

definition Release :: "'it GridView \<Rightarrow> 'it WidgetPool \<Rightarrow> 'it WidgetPool" where
  "Release g pool = g # pool"

text \<open>
  The adapter interface as a record of its methods. The optional
  \<open>SortableGridViewPageAdapter\<close> capability is the field \<open>SortOrders\<close>: \<open>None\<close> when the type
  assertion fails, otherwise the options and the initially selected one. \<open>ActionButton\<close> is
  the label of the button, if any. Resources are named by strings.
\<close>

record 'it GridViewPageAdapter =
  Title :: string
  Filter :: "AlbumFilter option"
  PlaceholderResource :: string
  ActionButton :: "string option"
  Iter :: "string \<Rightarrow> AlbumFilter \<Rightarrow> 'it"
  SearchIter :: "string \<Rightarrow> AlbumFilter \<Rightarrow> 'it"
  SortOrders :: "(string list \<times> string) option"

text \<open>
  The calls a page makes on its adapter and on its grid while it is shown, in order (a
  ghost field of the page: the source keeps no such list).
\<close>

datatype call =
    AdapterIter string AlbumFilter
  | AdapterSearchIter string AlbumFilter
  | AdapterSaveSortOrder string
  | GridSaveToState
  | GridReset
  | GridResetFromState

subsection \<open>Widgets of the page header\<close>

record sortOrderSelect =
  Options :: "string list"
  Selected :: string
  selectDisabled :: bool

definition NewSortOrderSelect :: "string list \<Rightarrow> sortOrderSelect" where
  "NewSortOrderSelect options = \<lparr>Options = options, Selected = [], selectDisabled = False\<rparr>"

definition Enable :: "sortOrderSelect \<Rightarrow> sortOrderSelect" where
  "Enable s = s\<lparr>selectDisabled := False\<rparr>"

definition Disable :: "sortOrderSelect \<Rightarrow> sortOrderSelect" where
  "Disable s = s\<lparr>selectDisabled := True\<rparr>"

text \<open>
  Modelled from the spec: \<open>AlbumFilterButton\<close> and \<open>SearchEntry\<close> (package widgets) are not
  among the sources. The spec names them the "filter button" and the "search box" of a
  page; the model keeps the fields the page code assigns. The genre list of a filter
  button comes from the media provider, or from the stub that answers \<open>nil, nil\<close> when the
  page's base filter already fixes the genres. The button shares the page's filter
  pointer, which the model does not duplicate.
\<close>

datatype genreFn = GetGenres | NoGenres

record AlbumFilterButton =
  GenreDisabled :: bool
  genreSource :: genreFn

record SearchEntry =
  entryText :: string

definition NewSearchEntry :: SearchEntry where
  "NewSearchEntry = \<lparr>entryText = []\<rparr>"

datatype headerItem =
    HSpace nat
  | TitleItem
  | SortItem
  | ActionItem string
  | Spacer
  | FilterItem
  | SearchItem

subsection \<open>GridViewPage\<close>

text \<open>
  \<open>mp\<close> and \<open>im\<close> are references to the media provider and the image manager, kept as
  handles. \<open>grid\<close> is assigned before either constructor returns and is never nil
  afterwards, so it is a plain field. The field \<open>filter\<close> of the source is \<open>filter'\<close> here.
\<close>

type_synonym handle = nat

record 'it GridViewPage =
  adapter :: "'it GridViewPageAdapter"
  mp :: handle
  im :: handle
  grid :: "'it GridView"
  gridState :: "'it GridViewState option"
  searchGridState :: "'it GridViewState option"
  title :: "string option"
  sortOrder :: "sortOrderSelect option"
  filterBtn :: "AlbumFilterButton option"
  filter' :: "AlbumFilter option"
  searcher :: "SearchEntry option"
  searchText :: string
  container :: "headerItem list"
  calls :: "call list"

definition getFilter :: "'it GridViewPage \<Rightarrow> AlbumFilter" where
  "getFilter g = (case filter' g of Some f \<Rightarrow> f | None \<Rightarrow> zeroAlbumFilter)"

definition getSortOrder :: "'it GridViewPage \<Rightarrow> string" where
  "getSortOrder g = (case sortOrder g of Some s \<Rightarrow> Selected s | None \<Rightarrow> [])"

definition createTitleAndSort :: "'it GridViewPage \<Rightarrow> 'it GridViewPage" where
  "createTitleAndSort g =
     (let g1 = g\<lparr>title := Some (Title (adapter g))\<rparr>
      in case SortOrders (adapter g1) of
           Some (sorts, selected) \<Rightarrow>
             g1\<lparr>sortOrder := Some ((NewSortOrderSelect sorts)\<lparr>Selected := selected\<rparr>)\<rparr>
         | None \<Rightarrow> g1)"

definition createSearchAndFilter :: "'it GridViewPage \<Rightarrow> 'it GridViewPage" where
  "createSearchAndFilter g =
     (let g1 = g\<lparr>searcher := Some (NewSearchEntry\<lparr>entryText := searchText g\<rparr>)\<rparr>
      in case filter' g1 of
           Some f \<Rightarrow>
             (let disableGenres = (length (Genres f) > 0);
                  fn = (if disableGenres then NoGenres else GetGenres)
              in g1\<lparr>filterBtn := Some \<lparr>GenreDisabled = disableGenres, genreSource = fn\<rparr>\<rparr>)
         | None \<Rightarrow> g1)"

definition createContainer :: "'it GridViewPage \<Rightarrow> 'it GridViewPage" where
  "createContainer g =
     (let header = [HSpace 6, TitleItem];
          header = (if sortOrder g \<noteq> None then header @ [SortItem] else header);
          header = (case ActionButton (adapter g) of
                      Some b \<Rightarrow> header @ [ActionItem b]
                    | None \<Rightarrow> header);
          header = header @ [Spacer];
          header = (if filterBtn g \<noteq> None then header @ [FilterItem] else header);
          header = header @ [SearchItem];
          header = header @ [HSpace 12]
      in g\<lparr>container := header\<rparr>)"

text \<open>
  The struct literal of a constructor leaves \<open>grid\<close> nil until the widget is obtained a few
  statements later; nothing reads the field before that assignment. \<open>nilGridView\<close> stands
  for the unassigned field.
\<close>

definition nilGridView :: "'it GridView" where
  "nilGridView = \<lparr>gvState = \<lparr>Placeholder = [], gvIter = None, gvItems = [], scrollPos = 0\<rparr>\<rparr>"

definition NewGridViewPage ::
    "'it GridViewPageAdapter \<Rightarrow> 'it WidgetPool \<Rightarrow> handle \<Rightarrow> handle \<Rightarrow> 'it GridViewPage \<times> 'it WidgetPool" where
  "NewGridViewPage adp pool mpr imr =
     (let gp = \<lparr>adapter = adp, mp = mpr, im = imr, grid = nilGridView,
                gridState = None, searchGridState = None, title = None, sortOrder = None,
                filterBtn = None, filter' = Filter adp, searcher = None, searchText = [],
                container = [], calls = []\<rparr>;
          gp = createTitleAndSort gp;
          it = Iter adp (getSortOrder gp) (getFilter gp);
          gp = gp\<lparr>calls := calls gp @ [AdapterIter (getSortOrder gp) (getFilter gp)]\<rparr>;
          (gp, pool) =
            (case Obtain pool of
               (Some g, pool') \<Rightarrow>
                 (gp\<lparr>grid := Reset it (g\<lparr>gvState := (gvState g)\<lparr>Placeholder := PlaceholderResource adp\<rparr>\<rparr>),
                     calls := calls gp @ [GridReset]\<rparr>, pool')
             | (None, pool') \<Rightarrow>
                 (gp\<lparr>grid := NewGridView it (PlaceholderResource adp)\<rparr>, pool'));
          gp = createSearchAndFilter gp;
          gp = createContainer gp
      in (gp, pool))"

definition doSearch :: "string \<Rightarrow> 'it GridViewPage \<Rightarrow> 'it GridViewPage" where
  "doSearch query g =
     (let g = (if searchText g = []
               then g\<lparr>gridState := Some (SaveToState (grid g)),
                      calls := calls g @ [GridSaveToState]\<rparr>
               else g)
      in g\<lparr>grid := Reset (SearchIter (adapter g) query (getFilter g)) (grid g),
            calls := calls g @ [AdapterSearchIter query (getFilter g), GridReset]\<rparr>)"

definition Reload :: "'it GridViewPage \<Rightarrow> 'it GridViewPage" where
  "Reload g =
     (if searchText g \<noteq> [] then doSearch (searchText g) g
      else g\<lparr>grid := Reset (Iter (adapter g) (getSortOrder g) (getFilter g)) (grid g),
             calls := calls g @ [AdapterIter (getSortOrder g) (getFilter g), GridReset]\<rparr>)"

definition OnSearched :: "string \<Rightarrow> 'it GridViewPage \<Rightarrow> error + 'it GridViewPage" where
  "OnSearched query g =
     (if query = [] then
        (let g = (case sortOrder g of
                    Some s \<Rightarrow> g\<lparr>sortOrder := Some (Enable s)\<rparr>
                  | None \<Rightarrow> g)
         in case ResetFromState (gridState g) (grid g) of
              Inl e \<Rightarrow> Inl e
            | Inr gr \<Rightarrow>
                Inr (g\<lparr>grid := gr, calls := calls g @ [GridResetFromState],
                       searchGridState := None, searchText := query\<rparr>))
      else
        (let g = (case sortOrder g of
                    Some s \<Rightarrow> g\<lparr>sortOrder := Some (Disable s)\<rparr>
                  | None \<Rightarrow> g);
             g = doSearch query g
         in Inr (g\<lparr>searchText := query\<rparr>)))"

text \<open>
  \<open>onSortOrderChanged\<close> is only installed on the select of a sortable adapter. Its argument
  is not used: the order saved and requested is the select's current selection.
\<close>

definition onSortOrderChanged :: "string \<Rightarrow> 'it GridViewPage \<Rightarrow> 'it GridViewPage" where
  "onSortOrderChanged order' g =
     g\<lparr>grid := Reset (Iter (adapter g) (getSortOrder g) (getFilter g)) (grid g),
       calls := calls g @ [AdapterSaveSortOrder (getSortOrder g),
                           AdapterIter (getSortOrder g) (getFilter g), GridReset]\<rparr>"

record 'it savedGridViewPage =
  sv_adapter :: "'it GridViewPageAdapter"
  sv_im :: handle
  sv_mp :: handle
  sv_searchText :: string
  sv_filter :: "AlbumFilter option"
  sv_sortOrder :: string
  sv_gridState :: "'it GridViewState option"
  sv_searchGridState :: "'it GridViewState option"

text \<open>
  \<open>Save\<close> answers the saved page. It also clears the grid of the page it is called on and
  hands that widget to the pool, so it returns, after the saved page, the page and the
  pool as it leaves them. The page keeps its pointer to the released widget: the grid of
  the page and the widget in the pool are one object, of which the model holds two
  copies. \<open>Save\<close> takes the page off the screen; its calls on the grid are not added to
  \<open>calls\<close>, which lists what the page does while it is shown.
\<close>

definition Save ::
    "'it GridViewPage \<Rightarrow> 'it WidgetPool \<Rightarrow>
       'it savedGridViewPage \<times> 'it GridViewPage \<times> 'it WidgetPool" where
  "Save g pool =
     (let sa = \<lparr>sv_adapter = adapter g, sv_im = im g, sv_mp = mp g,
                sv_searchText = searchText g, sv_filter = filter' g,
                sv_sortOrder = getSortOrder g, sv_gridState = gridState g,
                sv_searchGridState = searchGridState g\<rparr>;
          sa = (if searchText g = []
                then sa\<lparr>sv_gridState := Some (SaveToState (grid g))\<rparr>
                else sa\<lparr>sv_searchGridState := Some (SaveToState (grid g))\<rparr>);
          g = g\<lparr>grid := Clear (grid g)\<rparr>
      in (sa, g, Release (grid g) pool))"

definition Restore ::
    "'it savedGridViewPage \<Rightarrow> 'it WidgetPool \<Rightarrow> error + ('it GridViewPage \<times> 'it WidgetPool)" where
  "Restore s pool =
     (let gp = \<lparr>adapter = sv_adapter s, mp = sv_mp s, im = sv_im s, grid = nilGridView,
                gridState = sv_gridState s, searchGridState = sv_searchGridState s,
                title = None, sortOrder = None, filterBtn = None, filter' = sv_filter s,
                searcher = None, searchText = sv_searchText s, container = [], calls = []\<rparr>;
          gp = createTitleAndSort gp;
          state = sv_gridState s;
          (gp, state) =
            (if sv_searchText s \<noteq> [] then
               ((case sortOrder gp of
                   Some so \<Rightarrow> gp\<lparr>sortOrder := Some (Disable so)\<rparr>
                 | None \<Rightarrow> gp), sv_searchGridState s)
             else (gp, state))
      in case (case Obtain pool of
                 (Some g, pool') \<Rightarrow>
                   (case ResetFromState state g of
                      Inl e \<Rightarrow> Inl e
                    | Inr g' \<Rightarrow> Inr (gp\<lparr>grid := g', calls := calls gp @ [GridResetFromState]\<rparr>, pool'))
               | (None, pool') \<Rightarrow>
                   (case NewGridViewFromState state of
                      Inl e \<Rightarrow> Inl e
                    | Inr g' \<Rightarrow> Inr (gp\<lparr>grid := g'\<rparr>, pool'))) of
           Inl e \<Rightarrow> Inl e
         | Inr (gp, pool) \<Rightarrow> Inr (createContainer (createSearchAndFilter gp), pool))"

text \<open>
  The public operations that can follow one another on a live page while it stays on
  screen, and their execution in sequence; a panic ends the run.
\<close>

datatype pageOp = OpSearched string | OpReload

fun step :: "pageOp \<Rightarrow> 'it GridViewPage \<Rightarrow> error + 'it GridViewPage" where
  "step (OpSearched query) g = OnSearched query g"
| "step OpReload g = Inr (Reload g)"

fun run :: "pageOp list \<Rightarrow> 'it GridViewPage \<Rightarrow> error + 'it GridViewPage" where
  "run [] g = Inr g"
| "run (x # xs) g = (case step x g of Inl e \<Rightarrow> Inl e | Inr g' \<Rightarrow> run xs g')"

text \<open>
  A monitor for the order of snapshots in a list of calls. The flag says that a snapshot
  of the browsing grid is being held (a search is active). A further \<open>GridSaveToState\<close> while
  the flag is up is a second snapshot in a row: the monitor answers \<open>None\<close>. Restoring the
  grid from its snapshot lowers the flag. Otherwise it answers the final flag.
\<close>

fun snapshotMonitor :: "bool \<Rightarrow> call list \<Rightarrow> bool option" where
  "snapshotMonitor held [] = Some held"
| "snapshotMonitor held (GridSaveToState # cs) =
     (if held then None else snapshotMonitor True cs)"
| "snapshotMonitor held (GridResetFromState # cs) = snapshotMonitor False cs"
| "snapshotMonitor held (c # cs) = snapshotMonitor held cs"

text \<open>
  The state invariant of section 3 of the spec. Of the two grid states of a saved page
  the active one is selected by \<open>searchText\<close>. While a page is browsing it holds no search
  state; while it is searching it holds the snapshot of the browsing grid.
\<close>

definition sv_activeState :: "'it savedGridViewPage \<Rightarrow> 'it GridViewState option" where
  "sv_activeState s = (if sv_searchText s = [] then sv_gridState s else sv_searchGridState s)"

definition oneActive :: "'it GridViewPage \<Rightarrow> bool" where
  "oneActive g \<longleftrightarrow> (if searchText g = [] then searchGridState g = None else gridState g \<noteq> None)"

definition sv_oneActive :: "'it savedGridViewPage \<Rightarrow> bool" where
  "sv_oneActive s \<longleftrightarrow>
     (if sv_searchText s = [] then sv_searchGridState s = None else sv_gridState s \<noteq> None)"

section \<open>Main window (package ui)\<close>

subsection \<open>System-tray volume items\<close>

text \<open>
  The two volume items compute \<open>int(float64(vol)*0.1)\<close>. The three steps are: the conversion
  of a Go \<open>int\<close> to \<open>float64\<close>, one \<open>float64\<close> multiplication by the constant \<open>0.1\<close>, and the
  conversion back, which discards the fraction. A finite \<open>float64\<close> is a sign, a significand
  of at most 53 bits and a power of two; each operation gives the exact result rounded to
  the nearest such number, ties to the even significand. The values here lie between
  \<open>0.1\<close> and \<open>2 ^ 63\<close> in magnitude, far from overflow and from the subnormal range, so the
  exponent is not bounded in the model.
\<close>

definition round53 :: "nat \<Rightarrow> int \<Rightarrow> nat \<times> int" where
  "round53 m e =
     (if bitlen m \<le> 53 then (m, e)
      else
        (let s = bitlen m - 53;
             q = m div 2 ^ s;
             r = m mod 2 ^ s;
             h = 2 ^ (s - 1)
         in ((if r < h then q else if h < r then q + 1 else if even q then q else q + 1),
             e + int s)))"

datatype float64 = Float64 (negative: bool) (significand: nat) (exponent: int)

definition float64_of_int :: "int \<Rightarrow> float64" where
  "float64_of_int v = (case round53 (nat \<bar>v\<bar>) 0 of (m, e) \<Rightarrow> Float64 (v < 0) m e)"

definition float64_mul :: "float64 \<Rightarrow> float64 \<Rightarrow> float64" where
  "float64_mul a b =
     (case round53 (significand a * significand b) (exponent a + exponent b) of
        (m, e) \<Rightarrow> Float64 (negative a \<noteq> negative b) m e)"

text \<open>The \<open>float64\<close> nearest to one tenth: \<open>0x1.999999999999ap-4\<close>.\<close>

definition float64_tenth :: float64 where
  "float64_tenth = Float64 False 3602879701896397 (- 55)"

definition int_of_float64 :: "float64 \<Rightarrow> int" where
  "int_of_float64 f =
     (let a = (if 0 \<le> exponent f
               then int (significand f) * 2 ^ nat (exponent f)
               else int (significand f) div 2 ^ nat (- exponent f))
      in if negative f then - a else a)"

text \<open>Go's \<open>int\<close> on the 64-bit platforms: sums wrap around.\<close>

definition goInt :: "int \<Rightarrow> int" where
  "goInt x = (x + 2 ^ 63) mod 2 ^ 64 - 2 ^ 63"

text \<open>
  The playback manager belongs to the backend, which is not among the sources; the menu
  items use its \<open>Volume\<close> and \<open>SetVolume\<close> methods, taken here as parameters.
\<close>

record 'pm PlaybackManager =
  Volume :: "'pm \<Rightarrow> int"
  SetVolume :: "int \<Rightarrow> 'pm \<Rightarrow> 'pm"

definition volumeUpItem :: "'pm PlaybackManager \<Rightarrow> 'pm \<Rightarrow> 'pm" where
  "volumeUpItem pmgr pm =
     (let vol = Volume pmgr pm;
          vol = goInt (vol + int_of_float64 (float64_mul (float64_of_int vol) float64_tenth))
      in SetVolume pmgr vol pm)"

definition volumeDownItem :: "'pm PlaybackManager \<Rightarrow> 'pm \<Rightarrow> 'pm" where
  "volumeDownItem pmgr pm =
     (let vol = Volume pmgr pm;
          vol = goInt (vol - int_of_float64 (float64_mul (float64_of_int vol) float64_tenth))
      in SetVolume pmgr vol pm)"

text \<open>Truncation of the exact tenth of an integer, towards zero.\<close>

definition truncTenth :: "int \<Rightarrow> int" where
  "truncTenth v = sgn v * (\<bar>v\<bar> div 10)"

subsection \<open>New-version notification\<close>

text \<open>
  Of the application state the notification flow touches
  \<open>Config.Application.LastCheckedVersion\<close>, the modal dialogs queued through the controller
  (each with its text and the version tag its answer will store) and the update checker's
  \<open>OnUpdatedVersionFound\<close> slot. What the update checker has found (\<open>VersionTagFound()\<close>) and
  the version of the running application (\<open>VersionTag()\<close>) come from the backend and are
  parameters.
\<close>

record versionDialog =
  contentStr :: string
  dialogTag :: string

record MainWindow =
  LastCheckedVersion :: string
  modalQueue :: "versionDialog list"
  updateCallbackSet :: bool

definition ShowNewVersionDialog :: "string \<Rightarrow> string \<Rightarrow> MainWindow \<Rightarrow> MainWindow" where
  "ShowNewVersionDialog appName versionTag m =
     (let contentStr = ''A new version of '' @ appName @ '' ('' @ versionTag @ '') is available''
      in m\<lparr>modalQueue := modalQueue m @ [\<lparr>contentStr = contentStr, dialogTag = versionTag\<rparr>]\<rparr>)"

text \<open>The answer to a queued dialog, whichever button is pressed.\<close>

definition dialogAnswered :: "versionDialog \<Rightarrow> bool \<Rightarrow> MainWindow \<Rightarrow> MainWindow" where
  "dialogAnswered d show' m = m\<lparr>LastCheckedVersion := dialogTag d\<rparr>"

text \<open>The version part of the function registered with \<open>OnServerConnected\<close>.\<close>

definition onServerConnected :: "string \<Rightarrow> string \<Rightarrow> string \<Rightarrow> MainWindow \<Rightarrow> MainWindow" where
  "onServerConnected displayAppName appVersionTag versionTagFound m =
     (let t = versionTagFound;
          m = (if t \<noteq> [] \<and> t \<noteq> LastCheckedVersion m then
                 (let m = (if t \<noteq> appVersionTag then ShowNewVersionDialog displayAppName t m else m)
                  in m\<lparr>LastCheckedVersion := t\<rparr>)
               else m)
      in m\<lparr>updateCallbackSet := True\<rparr>)"

text \<open>The function stored in the \<open>OnUpdatedVersionFound\<close> slot, run by the update checker.\<close>

definition OnUpdatedVersionFound :: "string \<Rightarrow> string \<Rightarrow> string \<Rightarrow> MainWindow \<Rightarrow> MainWindow" where
  "OnUpdatedVersionFound displayAppName appVersionTag versionTagFound m =
     (let t = versionTagFound;
          m = (if t \<noteq> appVersionTag then ShowNewVersionDialog displayAppName t m else m)
      in m\<lparr>LastCheckedVersion := t\<rparr>)"

text \<open>The version tags announced so far, oldest first.\<close>

definition promptedTags :: "MainWindow \<Rightarrow> string list" where
  "promptedTags m = map dialogTag (modalQueue m)"

section \<open>Example values\<close>

text \<open>
  The scenario of the spec: a sortable, filterable page with the sort orders \<open>A-Z\<close> and
  \<open>Recently Added\<close>, searched for \<open>moon\<close>. Its iterators are named by the request that
  made them.
\<close>

definition exampleAdapter :: "call GridViewPageAdapter" where
  "exampleAdapter =
     \<lparr>Title = ''Albums'', Filter = Some zeroAlbumFilter, PlaceholderResource = ''album'',
      ActionButton = None, Iter = AdapterIter, SearchIter = AdapterSearchIter,
      SortOrders = Some ([''A-Z'', ''Recently Added''], ''A-Z'')\<rparr>"

definition unfilteredAdapter :: "call GridViewPageAdapter" where
  "unfilteredAdapter = exampleAdapter\<lparr>Title := ''Artists'', Filter := None, SortOrders := None\<rparr>"

definition examplePage :: "call GridViewPage" where
  "examplePage = fst (NewGridViewPage exampleAdapter [] 1 2)"

definition exampleSearching :: "call GridViewPage" where
  "exampleSearching = (case OnSearched ''moon'' examplePage of Inr g \<Rightarrow> g | Inl e \<Rightarrow> examplePage)"

definition exampleModel :: GridViewItemModel where
  "exampleModel =
     \<lparr>Name = ''Kind of Blue'', ID = ''al-1'', CoverArtID = ''cv-1'',
      Secondary = ''Miles Davis'', SecondaryID = ''ar-1''\<rparr>"

definition exampleItem :: GridViewItem where
  "exampleItem = Update exampleModel NewGridViewItem"










text \<open>A playback manager whose state is the volume and whose \<open>SetVolume\<close> clamps to 0..100.\<close>

definition examplePlayback :: "int PlaybackManager" where
  "examplePlayback = \<lparr>Volume = (\<lambda>pm. pm), SetVolume = (\<lambda>v pm. max 0 (min 100 v))\<rparr>"

definition freshWindow :: MainWindow where
  "freshWindow = \<lparr>LastCheckedVersion = [], modalQueue = [], updateCallbackSet = False\<rparr>"

section \<open>Properties of the grid item\<close>

text \<open>
  Claim C6. \<open>NeedsUpdate\<close> answers false exactly when the model's pair (ID, SecondaryID) is
  the item's pair (itemID, secondaryID), and true otherwise; the name, the cover art and
  the secondary text of the model have no influence on the answer.
\<close>

theorem NeedsUpdate_identity:
  "NeedsUpdate g model = (\<not> ((ID model, SecondaryID model) = (itemID g, secondaryID g)))
   \<and> NeedsUpdate g (model\<lparr>Name := n, CoverArtID := c, Secondary := s\<rparr>) = NeedsUpdate g model"
  by (auto simp: NeedsUpdate_def)

theorem NeedsUpdate_identity_witness:
  "NeedsUpdate exampleItem (exampleModel\<lparr>Name := ''x'', CoverArtID := ''y'', Secondary := ''z''\<rparr>) = False
   \<and> NeedsUpdate exampleItem (exampleModel\<lparr>ID := ''al-2''\<rparr>) = True
   \<and> NeedsUpdate exampleItem (exampleModel\<lparr>SecondaryID := []\<rparr>) = True"
proof -
  have i: "itemID exampleItem = ''al-1''" "secondaryID exampleItem = ''ar-1''"
    by (simp_all add: exampleItem_def exampleModel_def Update_def Let_def)
  have m: "ID exampleModel = ''al-1''" "SecondaryID exampleModel = ''ar-1''"
    by (simp_all add: exampleModel_def)
  note a = NeedsUpdate_identity [of exampleItem exampleModel, THEN conjunct1]
  note b = NeedsUpdate_identity [where g = exampleItem and model = exampleModel and n = "''x''"
      and c = "''y''" and s = "''z''", THEN conjunct2]
  note c = NeedsUpdate_identity [of exampleItem "exampleModel\<lparr>ID := ''al-2''\<rparr>", THEN conjunct1]
  note d = NeedsUpdate_identity [of exampleItem "exampleModel\<lparr>SecondaryID := []\<rparr>", THEN conjunct1]
  show ?thesis
    unfolding a b c d by (simp add: i m)
qed

text \<open>
  Claim C10. \<open>Update\<close> leaves the secondary hyperlink disabled exactly when the model's
  SecondaryID is empty, always sets the primary and the secondary text from the model,
  and resets the play button of the cover: hidden, not hovered, at its default size.
\<close>

theorem Update_sets_item:
  "Disabled (secondaryText (Update model g)) = (SecondaryID model = [])
   \<and> Text (primaryText (Update model g)) = Name model
   \<and> Text (secondaryText (Update model g)) = Secondary model
   \<and> Hidden (playbtn (Cover (Update model g))) = True
   \<and> mouseInsideBtn (Cover (Update model g)) = False
   \<and> MinSize (playbtn (Cover (Update model g))) = playBtnSize
   \<and> itemID (Update model g) = ID model
   \<and> secondaryID (Update model g) = SecondaryID model"
  by (simp add: Update_def ResetPlayButton_def SetText_def SetMinSize_def Let_def)

theorem Update_sets_item_witness:
  "Disabled (secondaryText exampleItem) = False
   \<and> Text (primaryText exampleItem) = ''Kind of Blue''
   \<and> Text (secondaryText exampleItem) = ''Miles Davis''
   \<and> Disabled (secondaryText (Update (exampleModel\<lparr>SecondaryID := []\<rparr>) exampleItem)) = True
   \<and> Hidden (playbtn (Cover (Update exampleModel (exampleItem\<lparr>Cover := 
         \<lparr>size' = playBtnSize, playbtn = \<lparr>MinSize = playBtnHoveredSize, Hidden = False\<rparr>,
          mouseInsideBtn = True\<rparr>\<rparr>)))) = True
   \<and> MinSize (playbtn (Cover (Update exampleModel (exampleItem\<lparr>Cover := 
         \<lparr>size' = playBtnSize, playbtn = \<lparr>MinSize = playBtnHoveredSize, Hidden = False\<rparr>,
          mouseInsideBtn = True\<rparr>\<rparr>)))) = NewSize (Finite 60 0) (Finite 60 0)"
  using Update_sets_item [of exampleModel NewGridViewItem]
    Update_sets_item [of "exampleModel\<lparr>SecondaryID := []\<rparr>" exampleItem]
    Update_sets_item [of exampleModel "exampleItem\<lparr>Cover := 
         \<lparr>size' = playBtnSize, playbtn = \<lparr>MinSize = playBtnHoveredSize, Hidden = False\<rparr>,
          mouseInsideBtn = True\<rparr>\<rparr>"]
  by (simp add: exampleItem_def exampleModel_def playBtnSize_def)

section \<open>Properties of the hit test\<close>

subsection \<open>Rounding to \<open>float32\<close>\<close>

lemma bitlen_bound: "n < 2 ^ bitlen n"
proof (induction n rule: bitlen.induct)
  case (1 n)
  show ?case
  proof (cases "n = 0")
    case True
    then show ?thesis by (simp add: bitlen.simps)
  next
    case False
    with 1 have "n div 2 < 2 ^ bitlen (n div 2)" by simp
    then have "n < 2 * 2 ^ bitlen (n div 2)" by linarith
    with False show ?thesis by (subst bitlen.simps) simp
  qed
qed

lemma bitlen_le: "n < 2 ^ k \<Longrightarrow> bitlen n \<le> k"
proof (induction n arbitrary: k rule: bitlen.induct)
  case (1 n)
  show ?case
  proof (cases "n = 0")
    case True
    then show ?thesis by (simp add: bitlen.simps)
  next
    case False
    with "1.prems" obtain j where k: "k = Suc j" by (cases k) auto
    with "1.prems" have "n div 2 < 2 ^ j" by simp
    with 1 False have "bitlen (n div 2) \<le> j" by simp
    with False k show ?thesis by (subst bitlen.simps) simp
  qed
qed

lemma round32_unshifted:
  assumes "m \<noteq> 0" and "roundShift (nat \<bar>m\<bar>) e \<le> 0"
    and "int (bitlen (nat \<bar>m\<bar>)) + e \<le> 128"
  shows "round32 m e = Finite m e"
proof -
  define n where "n = nat \<bar>m\<bar>"
  have m: "(if m < 0 then - int n else int n) = m" by (simp add: n_def)
  have s: "roundShift n e \<le> 0" and o: "\<not> 128 < int (bitlen n) + e"
    using assms(2,3) by (simp_all add: n_def)
  have "round32 m e = Finite (if m < 0 then - int n else int n) e"
    unfolding round32_def n_def [symmetric] Let_def using assms(1) s o by (simp only: if_True if_False)
  then show ?thesis by (simp only: m)
qed

lemma round32_exact:
  assumes "m \<noteq> 0" and "\<bar>m\<bar> < 2 ^ 24" and "- 149 \<le> e" and "e \<le> 104"
  shows "round32 m e = Finite m e"
proof -
  have "nat \<bar>m\<bar> < 2 ^ 24" using assms(2) by (simp add: nat_less_iff)
  then have b: "bitlen (nat \<bar>m\<bar>) \<le> 24" by (rule bitlen_le)
  then have s: "roundShift (nat \<bar>m\<bar>) e \<le> 0"
    using assms(3) by (simp add: roundShift_def)
  have o: "int (bitlen (nat \<bar>m\<bar>)) + e \<le> 128" using b assms(4) by simp
  from assms(1) s o show ?thesis by (rule round32_unshifted)
qed





subsection \<open>The hit test of the cover image\<close>











subsection \<open>The example cover\<close>

lemma round32_zero: "round32 0 e = Finite 0 0"
  by (simp add: round32_def)








subsection \<open>Coordinates on a common grid\<close>

text \<open>
  When the coordinates of the centre and of the pointer are whole multiples of one power
  of two \<open>2 ^ u\<close>, no smaller than \<open>2 ^ - 74\<close> and no greater than 1, and the squared distance
  is below \<open>2 ^ 24\<close> of the squared unit, then no step of the hit test rounds.
\<close>

lemma valof_round32_small:
  assumes "\<bar>m\<bar> < 2 ^ 24" and "- 149 \<le> e" and "e \<le> 0"
  shows "isFinite (round32 m e)" and "valof (round32 m e) = of_int m * 2 powi e"
proof -
  show "isFinite (round32 m e)"
    using assms round32_exact [of m e] by (cases "m = 0") (simp_all add: round32_zero)
  show "valof (round32 m e) = of_int m * 2 powi e"
    using assms round32_exact [of m e] by (cases "m = 0") (simp_all add: round32_zero)
qed







subsection \<open>Inclusive boundary and hover growth\<close>




section \<open>Properties of the grid view page\<close>

subsection \<open>What each operation does to the fields\<close>

lemma doSearch_fields:
  "searchText (doSearch q g) = searchText g"
  "searchGridState (doSearch q g) = searchGridState g"
  "adapter (doSearch q g) = adapter g"
  "filter' (doSearch q g) = filter' g"
  "sortOrder (doSearch q g) = sortOrder g"
  "mp (doSearch q g) = mp g"
  "im (doSearch q g) = im g"
  "gridState (doSearch q g) = (if searchText g = [] then Some (SaveToState (grid g)) else gridState g)"
  "grid (doSearch q g) = Reset (SearchIter (adapter g) q (getFilter g)) (grid g)"
  "calls (doSearch q g) =
     calls g @ (if searchText g = [] then [GridSaveToState] else [])
       @ [AdapterSearchIter q (getFilter g), GridReset]"
  by (simp_all add: doSearch_def Let_def getFilter_def)

lemma OnSearched_query:
  assumes "q \<noteq> []"
  shows "OnSearched q g =
     Inr ((doSearch q (case sortOrder g of Some s \<Rightarrow> g\<lparr>sortOrder := Some (Disable s)\<rparr> | None \<Rightarrow> g))
            \<lparr>searchText := q\<rparr>)"
  using assms by (simp add: OnSearched_def Let_def)

lemma OnSearched_clear:
  assumes "gridState g = Some s"
  shows "OnSearched [] g =
     Inr (g\<lparr>sortOrder := map_option Enable (sortOrder g),
            grid := (grid g)\<lparr>gvState := s\<rparr>,
            calls := calls g @ [GridResetFromState],
            searchGridState := None, searchText := []\<rparr>)"
  using assms by (cases "sortOrder g") (simp_all add: OnSearched_def Let_def ResetFromState_def)

lemma OnSearched_clear_nil:
  assumes "gridState g = None"
  shows "OnSearched [] g = Inl NilPointerDereference"
  using assms by (cases "sortOrder g") (simp_all add: OnSearched_def Let_def ResetFromState_def)

lemma OnSearched_query_fields:
  assumes "q \<noteq> []"
  shows "\<exists>g'. OnSearched q g = Inr g' \<and> searchText g' = q
     \<and> gridState g' = (if searchText g = [] then Some (SaveToState (grid g)) else gridState g)
     \<and> searchGridState g' = searchGridState g
     \<and> filter' g' = filter' g \<and> adapter g' = adapter g
     \<and> calls g' = calls g @ (if searchText g = [] then [GridSaveToState] else [])
          @ [AdapterSearchIter q (getFilter g), GridReset]"
  using assms
  by (cases "sortOrder g") (simp_all add: OnSearched_query doSearch_fields getFilter_def)

lemma OnSearched_clear_fields:
  assumes "OnSearched [] g = Inr g'"
  shows "searchGridState g' = None \<and> searchText g' = [] \<and> Some (SaveToState (grid g')) = gridState g"
proof (cases "gridState g")
  case None
  then show ?thesis using assms by (simp add: OnSearched_clear_nil)
next
  case (Some s)
  then show ?thesis using assms by (auto simp: OnSearched_clear SaveToState_def)
qed

lemma Reload_search:
  assumes "searchText g \<noteq> []"
  shows "searchText (Reload g) = searchText g" "gridState (Reload g) = gridState g"
    "calls (Reload g) = calls g @ [AdapterSearchIter (searchText g) (getFilter g), GridReset]"
  using assms by (simp_all add: Reload_def doSearch_fields)

lemma Reload_browse:
  assumes "searchText g = []"
  shows "searchText (Reload g) = searchText g" "gridState (Reload g) = gridState g"
    "calls (Reload g) = calls g @ [AdapterIter (getSortOrder g) (getFilter g), GridReset]"
  using assms by (simp_all add: Reload_def)

lemma createTitleAndSort_fields:
  "searchText (createTitleAndSort g) = searchText g"
  "gridState (createTitleAndSort g) = gridState g"
  "searchGridState (createTitleAndSort g) = searchGridState g"
  "filter' (createTitleAndSort g) = filter' g"
  "filterBtn (createTitleAndSort g) = filterBtn g"
  "adapter (createTitleAndSort g) = adapter g"
  "calls (createTitleAndSort g) = calls g"
  by (simp_all add: createTitleAndSort_def Let_def split: option.split prod.split)

lemma createSearchAndFilter_fields:
  "searchText (createSearchAndFilter g) = searchText g"
  "gridState (createSearchAndFilter g) = gridState g"
  "searchGridState (createSearchAndFilter g) = searchGridState g"
  "grid (createSearchAndFilter g) = grid g"
  "filter' (createSearchAndFilter g) = filter' g"
  "adapter (createSearchAndFilter g) = adapter g"
  "sortOrder (createSearchAndFilter g) = sortOrder g"
  "calls (createSearchAndFilter g) = calls g"
  "filterBtn (createSearchAndFilter g) =
     (case filter' g of
        Some f \<Rightarrow> Some \<lparr>GenreDisabled = (Genres f \<noteq> []),
                         genreSource = (if Genres f \<noteq> [] then NoGenres else GetGenres)\<rparr>
      | None \<Rightarrow> filterBtn g)"
  by (simp_all add: createSearchAndFilter_def Let_def split: option.split)

lemma createContainer_fields:
  "searchText (createContainer g) = searchText g"
  "gridState (createContainer g) = gridState g"
  "searchGridState (createContainer g) = searchGridState g"
  "grid (createContainer g) = grid g"
  "filter' (createContainer g) = filter' g"
  "filterBtn (createContainer g) = filterBtn g"
  "calls (createContainer g) = calls g"
  "container (createContainer g) =
     [HSpace 6, TitleItem] @ (if sortOrder g \<noteq> None then [SortItem] else [])
       @ (case ActionButton (adapter g) of Some b \<Rightarrow> [ActionItem b] | None \<Rightarrow> [])
       @ [Spacer] @ (if filterBtn g \<noteq> None then [FilterItem] else [])
       @ [SearchItem, HSpace 12]"
  by (simp_all add: createContainer_def Let_def split: option.split)

lemma NewGridViewPage_fields:
  "searchText (fst (NewGridViewPage adp pool mpr imr)) = []"
  "gridState (fst (NewGridViewPage adp pool mpr imr)) = None"
  "searchGridState (fst (NewGridViewPage adp pool mpr imr)) = None"
  "filter' (fst (NewGridViewPage adp pool mpr imr)) = Filter adp"
  "\<exists>so f. calls (fst (NewGridViewPage adp pool mpr imr)) =
     AdapterIter so f # (if pool = [] then [] else [GridReset])"
  by (cases pool;
      simp add: NewGridViewPage_def Let_def Obtain_def createContainer_fields
        createSearchAndFilter_fields createTitleAndSort_fields)+

lemma NewGridViewPage_filterBtn:
  "filterBtn (fst (NewGridViewPage adp pool mpr imr)) =
     (case Filter adp of
        Some f \<Rightarrow> Some \<lparr>GenreDisabled = (Genres f \<noteq> []),
                         genreSource = (if Genres f \<noteq> [] then NoGenres else GetGenres)\<rparr>
      | None \<Rightarrow> None)"
  by (cases pool; cases "Filter adp")
     (simp_all add: NewGridViewPage_def Let_def Obtain_def createContainer_fields
        createSearchAndFilter_fields createTitleAndSort_fields)

lemma NewGridViewPage_FilterItem:
  "(FilterItem \<in> set (container (fst (NewGridViewPage adp pool mpr imr)))) = (Filter adp \<noteq> None)"
  by (cases pool; cases "Filter adp"; cases "ActionButton adp")
     (simp_all add: NewGridViewPage_def Let_def Obtain_def createContainer_fields
        createSearchAndFilter_fields createTitleAndSort_fields)

lemma Save_fields:
  "sv_searchText (fst (Save g pool)) = searchText g"
  "sv_adapter (fst (Save g pool)) = adapter g"
  "sv_filter (fst (Save g pool)) = filter' g"
  "sv_sortOrder (fst (Save g pool)) = getSortOrder g"
  "sv_mp (fst (Save g pool)) = mp g"
  "sv_im (fst (Save g pool)) = im g"
  "sv_activeState (fst (Save g pool)) = Some (SaveToState (grid g))"
  "sv_gridState (fst (Save g pool)) =
     (if searchText g = [] then Some (SaveToState (grid g)) else gridState g)"
  "sv_searchGridState (fst (Save g pool)) =
     (if searchText g = [] then searchGridState g else Some (SaveToState (grid g)))"
  "fst (snd (Save g pool)) = g\<lparr>grid := Clear (grid g)\<rparr>"
  "snd (snd (Save g pool)) = Clear (grid g) # pool"
  by (simp_all add: Save_def Let_def sv_activeState_def Release_def)

lemma Restore_fields:
  assumes "Restore s pool = Inr (g, pool')"
  shows "searchText g = sv_searchText s" "gridState g = sv_gridState s"
    "searchGridState g = sv_searchGridState s"
    "Some (SaveToState (grid g)) = sv_activeState s"
  using assms
  by (auto simp: Restore_def Let_def Obtain_def ResetFromState_def NewGridViewFromState_def
      createContainer_fields createSearchAndFilter_fields createTitleAndSort_fields
      sv_activeState_def SaveToState_def
      split: list.splits option.splits prod.splits sum.splits if_splits)

lemma Restore_total:
  assumes "sv_activeState s = Some st"
  shows "\<exists>g pool'. Restore s pool = Inr (g, pool')"
  using assms
  by (cases pool; cases "sv_searchText s = []")
     (simp_all add: Restore_def Let_def Obtain_def ResetFromState_def NewGridViewFromState_def
        sv_activeState_def)

subsection \<open>The example page\<close>

lemma examplePage_fields:
  "searchText examplePage = []" "gridState examplePage = None"
  "searchGridState examplePage = None"
  "calls examplePage = [AdapterIter ''A-Z'' zeroAlbumFilter]"
  "filter' examplePage = Some zeroAlbumFilter"
  "getSortOrder examplePage = ''A-Z''"
  by (simp_all add: examplePage_def exampleAdapter_def NewGridViewPage_def Let_def Obtain_def
      createTitleAndSort_def createSearchAndFilter_def createContainer_def NewSortOrderSelect_def
      getSortOrder_def getFilter_def)

lemma exampleSearching_fields:
  "OnSearched ''moon'' examplePage = Inr exampleSearching"
  "searchText exampleSearching = ''moon''"
  "gridState exampleSearching = Some (SaveToState (grid examplePage))"
  "searchGridState exampleSearching = None"
  "filter' exampleSearching = Some zeroAlbumFilter"
  "calls exampleSearching =
     [AdapterIter ''A-Z'' zeroAlbumFilter, GridSaveToState,
      AdapterSearchIter ''moon'' zeroAlbumFilter, GridReset]"
proof -
  have q: "''moon'' \<noteq> []" by simp
  from OnSearched_query_fields [OF q, of examplePage] obtain g' where
    g': "OnSearched ''moon'' examplePage = Inr g'" "searchText g' = ''moon''"
      "gridState g' = Some (SaveToState (grid examplePage))"
      "searchGridState g' = None" "filter' g' = Some zeroAlbumFilter"
      "calls g' = [AdapterIter ''A-Z'' zeroAlbumFilter, GridSaveToState,
          AdapterSearchIter ''moon'' zeroAlbumFilter, GridReset]"
    by (auto simp: examplePage_fields getFilter_def)
  then have e: "exampleSearching = g'" by (simp add: exampleSearching_def)
  show "OnSearched ''moon'' examplePage = Inr exampleSearching"
    "searchText exampleSearching = ''moon''"
    "gridState exampleSearching = Some (SaveToState (grid examplePage))"
    "searchGridState exampleSearching = None"
    "filter' exampleSearching = Some zeroAlbumFilter"
    "calls exampleSearching =
       [AdapterIter ''A-Z'' zeroAlbumFilter, GridSaveToState,
        AdapterSearchIter ''moon'' zeroAlbumFilter, GridReset]"
    using g' by (simp_all add: e)
qed

subsection \<open>Search entered and cleared\<close>









subsection \<open>One snapshot per search\<close>

lemma snapshotMonitor_append:
  "snapshotMonitor b (xs @ ys) =
     (case snapshotMonitor b xs of None \<Rightarrow> None | Some b' \<Rightarrow> snapshotMonitor b' ys)"
  by (induction b xs rule: snapshotMonitor.induct) simp_all

lemma step_in_search:
  assumes "searchText g \<noteq> []" and "x \<noteq> OpSearched []"
  shows "\<exists>g'. step x g = Inr g' \<and> gridState g' = gridState g \<and> searchText g' \<noteq> []
     \<and> (\<exists>cs. calls g' = calls g @ cs \<and> GridSaveToState \<notin> set cs)"
proof (cases x)
  case (OpSearched q)
  with assms(2) have "q \<noteq> []" by simp
  from OnSearched_query_fields [OF this, of g] assms(1) OpSearched \<open>q \<noteq> []\<close>
  show ?thesis by auto
next
  case OpReload
  then show ?thesis using assms(1) by (simp add: Reload_search)
qed

lemma run_in_search:
  assumes "searchText g \<noteq> []" and "\<forall>x\<in>set ops. x \<noteq> OpSearched []"
  shows "\<exists>g'. run ops g = Inr g' \<and> gridState g' = gridState g \<and> searchText g' \<noteq> []
     \<and> (\<exists>cs. calls g' = calls g @ cs \<and> GridSaveToState \<notin> set cs)"
  using assms
proof (induction ops arbitrary: g)
  case Nil
  then show ?case by simp
next
  case (Cons x xs)
  from Cons.prems have x: "x \<noteq> OpSearched []" and xs: "\<forall>y\<in>set xs. y \<noteq> OpSearched []"
    by simp_all
  from step_in_search [OF Cons.prems(1) x] obtain g1 cs1 where
    g1: "step x g = Inr g1" "gridState g1 = gridState g" "searchText g1 \<noteq> []"
      "calls g1 = calls g @ cs1" "GridSaveToState \<notin> set cs1"
    by blast
  from Cons.IH [OF g1(3) xs] obtain g' cs where
    g': "run xs g1 = Inr g'" "gridState g' = gridState g1" "searchText g' \<noteq> []"
      "calls g' = calls g1 @ cs" "GridSaveToState \<notin> set cs"
    by blast
  have "calls g' = calls g @ (cs1 @ cs)" "GridSaveToState \<notin> set (cs1 @ cs)"
    using g1 g' by simp_all
  with g1(1,2) g'(1,2,3) show ?case
    by (intro exI [of _ g'] conjI exI [of _ "cs1 @ cs"]) simp_all
qed

lemma step_monitor:
  assumes "snapshotMonitor b (calls g) = Some (searchText g \<noteq> [])" and "step x g = Inr g'"
  shows "snapshotMonitor b (calls g') = Some (searchText g' \<noteq> [])"
proof (cases x)
  case OpReload
  then show ?thesis using assms
    by (cases "searchText g = []") (auto simp: Reload_search Reload_browse snapshotMonitor_append)
next
  case (OpSearched q)
  show ?thesis
  proof (cases "q = []")
    case False
    from OnSearched_query_fields [OF this, of g] OpSearched assms \<open>q \<noteq> []\<close>
    show ?thesis by (auto simp: snapshotMonitor_append)
  next
    case True
    show ?thesis
    proof (cases "gridState g")
      case None
      then show ?thesis using assms OpSearched True by (simp add: OnSearched_clear_nil)
    next
      case (Some s)
      then show ?thesis using assms OpSearched True
        by (auto simp: OnSearched_clear snapshotMonitor_append)
    qed
  qed
qed

lemma run_monitor:
  assumes "snapshotMonitor b (calls g) = Some (searchText g \<noteq> [])" and "run ops g = Inr g'"
  shows "snapshotMonitor b (calls g') = Some (searchText g' \<noteq> [])"
  using assms
proof (induction ops arbitrary: g)
  case Nil
  then show ?case by simp
next
  case (Cons x xs)
  then show ?case
    by (auto split: sum.splits dest: step_monitor)
qed

lemma fresh_monitor:
  "snapshotMonitor False (calls (fst (NewGridViewPage adp pool mpr imr))) = Some False"
  using NewGridViewPage_fields(5) [of adp pool mpr imr] by auto

text \<open>
  Claim C2. \<open>doSearch\<close> overwrites gridState with the grid's snapshot exactly when
  searchText is empty. Entering a search from the browsing state takes that snapshot
  once. While searchText is non-empty, any sequence of reloads and further non-empty
  searches returns, leaves gridState as it was and calls \<open>SaveToState\<close> not at all. Over any
  sequence of searches, clears and reloads that returns, from a fresh page or from any
  page whose calls so far agree with its search text, a second snapshot never follows a
  first without a restore from the snapshot in between.
\<close>

theorem snapshot_only_on_search_entry:
  "gridState (doSearch query g) =
     (if searchText g = [] then Some (SaveToState (grid g)) else gridState g)
   \<and> (searchText g = [] \<and> query \<noteq> [] \<longrightarrow>
        (\<exists>g1. OnSearched query g = Inr g1 \<and> gridState g1 = Some (SaveToState (grid g))
           \<and> calls g1 = calls g @
                [GridSaveToState, AdapterSearchIter query (getFilter g), GridReset]))
   \<and> (searchText g \<noteq> [] \<and> (\<forall>x\<in>set ops. x \<noteq> OpSearched []) \<longrightarrow>
        (\<exists>g1. run ops g = Inr g1 \<and> gridState g1 = gridState g \<and> searchText g1 \<noteq> []
           \<and> (\<exists>cs. calls g1 = calls g @ cs \<and> GridSaveToState \<notin> set cs)))
   \<and> (snapshotMonitor held (calls g) = Some (searchText g \<noteq> []) \<and> run ops g = Inr g' \<longrightarrow>
        snapshotMonitor held (calls g') = Some (searchText g' \<noteq> []))
   \<and> snapshotMonitor False (calls (fst (NewGridViewPage adp pool mpr imr))) = Some False
   \<and> searchText (fst (NewGridViewPage adp pool mpr imr)) = []"
proof -
  have a: "searchText g = [] \<and> query \<noteq> [] \<longrightarrow>
        (\<exists>g1. OnSearched query g = Inr g1 \<and> gridState g1 = Some (SaveToState (grid g))
           \<and> calls g1 = calls g @
                [GridSaveToState, AdapterSearchIter query (getFilter g), GridReset])"
    using OnSearched_query_fields [of query g] by auto
  show ?thesis
    using a run_in_search [of g ops] run_monitor [of held g ops g']
      fresh_monitor [of adp pool mpr imr] NewGridViewPage_fields(1) [of adp pool mpr imr]
    by (simp add: doSearch_fields)
qed

theorem snapshot_only_on_search_entry_witness:
  "(\<exists>g1. run [OpReload, OpSearched ''moo'', OpReload] exampleSearching = Inr g1
      \<and> gridState g1 = gridState exampleSearching
      \<and> snapshotMonitor False (calls g1) = Some True)
   \<and> (\<exists>g1. OnSearched ''moon'' examplePage = Inr g1
      \<and> gridState g1 = Some (SaveToState (grid examplePage))
      \<and> calls g1 = calls examplePage @
           [GridSaveToState, AdapterSearchIter ''moon'' zeroAlbumFilter, GridReset])"
proof -
  let ?ops = "[OpReload, OpSearched ''moo'', OpReload]"
  have h1: "searchText exampleSearching \<noteq> []" by (simp add: exampleSearching_fields)
  have h2: "\<forall>x\<in>set ?ops. x \<noteq> OpSearched []" by simp
  have h3: "snapshotMonitor False (calls exampleSearching) = Some (searchText exampleSearching \<noteq> [])"
    by (simp add: exampleSearching_fields)
  from snapshot_only_on_search_entry [of "''moon''" exampleSearching ?ops] h1 h2
  obtain g1 where g1: "run ?ops exampleSearching = Inr g1"
    "gridState g1 = gridState exampleSearching" "searchText g1 \<noteq> []"
    by blast
  from snapshot_only_on_search_entry [of "''moon''" exampleSearching ?ops False g1] h3 g1(1)
  have "snapshotMonitor False (calls g1) = Some (searchText g1 \<noteq> [])" by blast
  with g1 have first: "\<exists>g1. run ?ops exampleSearching = Inr g1
      \<and> gridState g1 = gridState exampleSearching
      \<and> snapshotMonitor False (calls g1) = Some True"
    by auto
  have h4: "searchText examplePage = [] \<and> ''moon'' \<noteq> []" by (simp add: examplePage_fields)
  from snapshot_only_on_search_entry [of "''moon''" examplePage] h4
  have "\<exists>g1. OnSearched ''moon'' examplePage = Inr g1
      \<and> gridState g1 = Some (SaveToState (grid examplePage))
      \<and> calls g1 = calls examplePage @
           [GridSaveToState, AdapterSearchIter ''moon'' (getFilter examplePage), GridReset]"
    by blast
  then have second: "\<exists>g1. OnSearched ''moon'' examplePage = Inr g1
      \<and> gridState g1 = Some (SaveToState (grid examplePage))
      \<and> calls g1 = calls examplePage @
           [GridSaveToState, AdapterSearchIter ''moon'' zeroAlbumFilter, GridReset]"
    by (simp add: getFilter_def examplePage_fields)
  from first second show ?thesis by (rule conjI)
qed

subsection \<open>The state invariant\<close>

lemma oneActive_New: "oneActive (fst (NewGridViewPage adp pool mpr imr))"
  by (simp add: oneActive_def NewGridViewPage_fields)

lemma oneActive_doSearch: "oneActive g \<Longrightarrow> oneActive (doSearch q g)"
  by (simp add: oneActive_def doSearch_fields)

lemma oneActive_Reload: "oneActive g \<Longrightarrow> oneActive (Reload g)"
  by (simp add: Reload_def oneActive_doSearch) (simp add: oneActive_def)

lemma oneActive_OnSearched:
  assumes "oneActive g" and "OnSearched q g = Inr g'"
  shows "oneActive g'"
proof (cases "q = []")
  case False
  from OnSearched_query_fields [OF this, of g] assms False show ?thesis
    by (auto simp: oneActive_def)
next
  case True
  show ?thesis
  proof (cases "gridState g")
    case None
    then show ?thesis using assms True by (simp add: OnSearched_clear_nil)
  next
    case (Some s)
    then show ?thesis using assms True by (auto simp: OnSearched_clear oneActive_def)
  qed
qed

lemma sv_oneActive_Save: "oneActive g \<Longrightarrow> sv_oneActive (fst (Save g pool))"
  by (simp add: sv_oneActive_def oneActive_def Save_fields)

lemma oneActive_Restore:
  assumes "sv_oneActive s" and "Restore s pool = Inr (g, pool')"
  shows "oneActive g"
  using assms(1) Restore_fields [OF assms(2)] by (simp add: oneActive_def sv_oneActive_def)

text \<open>
  Claim C3. The invariant holds of a freshly constructed page and is kept by \<open>OnSearched\<close>,
  \<open>doSearch\<close> and \<open>Reload\<close>; \<open>Save\<close> carries it over to the saved page and \<open>Restore\<close> back to the
  restored one. \<open>Save\<close> stores the state of the live grid in the slot that searchText
  selects, gridState when it is empty and searchGridState otherwise, and copies the other
  slot from the page. Clearing a search sets searchGridState to nil.
\<close>

theorem one_state_active:
  "oneActive (fst (NewGridViewPage adp pool mpr imr))
   \<and> (oneActive g \<and> OnSearched query g = Inr g' \<longrightarrow> oneActive g')
   \<and> (oneActive g \<longrightarrow> oneActive (doSearch query g) \<and> oneActive (Reload g)
         \<and> sv_oneActive (fst (Save g pool)))
   \<and> (sv_oneActive s \<and> Restore s pool = Inr (g', pool') \<longrightarrow> oneActive g')
   \<and> sv_searchText (fst (Save g pool)) = searchText g
   \<and> sv_activeState (fst (Save g pool)) = Some (SaveToState (grid g))
   \<and> sv_gridState (fst (Save g pool)) =
        (if searchText g = [] then Some (SaveToState (grid g)) else gridState g)
   \<and> sv_searchGridState (fst (Save g pool)) =
        (if searchText g = [] then searchGridState g else Some (SaveToState (grid g)))
   \<and> (OnSearched [] g = Inr g' \<longrightarrow> searchGridState g' = None \<and> searchText g' = [])"
  using oneActive_New [of adp pool mpr imr] oneActive_OnSearched [of g query g']
    oneActive_doSearch [of g query] oneActive_Reload [of g] sv_oneActive_Save [of g pool]
    oneActive_Restore [of s pool g' pool'] OnSearched_clear_fields [of g g']
  by (simp add: Save_fields)

theorem one_state_active_witness:
  "oneActive examplePage \<and> oneActive exampleSearching
   \<and> oneActive (Reload exampleSearching)
   \<and> sv_oneActive (fst (Save exampleSearching []))
   \<and> sv_searchGridState (fst (Save exampleSearching [])) = Some (SaveToState (grid exampleSearching))
   \<and> sv_gridState (fst (Save exampleSearching [])) = Some (SaveToState (grid examplePage))
   \<and> (\<exists>g'. OnSearched [] exampleSearching = Inr g' \<and> oneActive g'
         \<and> searchGridState g' = None \<and> searchText g' = [])
   \<and> (\<exists>g' pool'. Restore (fst (Save exampleSearching [])) [] = Inr (g', pool') \<and> oneActive g')"
proof -
  have p: "oneActive examplePage"
    using one_state_active [where adp = exampleAdapter and pool = "[]" and mpr = 1 and imr = 2]
    by (simp add: examplePage_def)
  have s: "oneActive exampleSearching"
    using one_state_active [where g = examplePage and query = "''moon''" and g' = exampleSearching] p
    by (simp add: exampleSearching_fields)
  obtain g1 where g1: "OnSearched [] exampleSearching = Inr g1"
    by (simp add: OnSearched_clear [OF exampleSearching_fields(3)])
  obtain g2 pool2 where g2: "Restore (fst (Save exampleSearching [])) [] = Inr (g2, pool2)"
    using Restore_total [OF Save_fields(7), of exampleSearching "[]" "[]"] by blast
  note a = one_state_active [where g = exampleSearching and query = "[]" and g' = g1
      and pool = "[]"]
  note b = one_state_active [where g = exampleSearching and query = "[]" and g' = g2
      and pool = "[]" and s = "fst (Save exampleSearching [])" and pool' = pool2]
  have c: "oneActive g1 \<and> searchGridState g1 = None \<and> searchText g1 = []"
    using a s g1 by blast
  have d: "sv_oneActive (fst (Save exampleSearching []))" "oneActive (Reload exampleSearching)"
    using a s by blast+
  have e: "oneActive g2" using b d(1) g2 by blast
  have f: "sv_searchGridState (fst (Save exampleSearching [])) = Some (SaveToState (grid exampleSearching))"
    "sv_gridState (fst (Save exampleSearching [])) = Some (SaveToState (grid examplePage))"
    using a by (simp_all add: exampleSearching_fields)
  show ?thesis using p s c d e f g1 g2 by blast
qed

subsection \<open>Reload\<close>

text \<open>
  Claim C4. Two calls of \<open>Reload\<close> in succession issue the same request to the adapter:
  both call \<open>SearchIter\<close> with the search text and the filter when searchText is non-empty,
  both call \<open>Iter\<close> with the sort order and the filter otherwise, each followed by one reset
  of the grid. \<open>Reload\<close> itself leaves searchText, filter, sort selection and gridState as
  they are, and the grid after the second call is the grid after the first. More
  generally, two pages that agree on searchText, filter and sort selection issue the same
  request on \<open>Reload\<close>, whatever else happened in between.
\<close>

theorem Reload_idempotent:
  "(let req = (if searchText g \<noteq> []
               then AdapterSearchIter (searchText g) (getFilter g)
               else AdapterIter (getSortOrder g) (getFilter g))
    in calls (Reload g) = calls g @ [req, GridReset]
       \<and> calls (Reload (Reload g)) = calls (Reload g) @ [req, GridReset])
   \<and> searchText (Reload g) = searchText g
   \<and> filter' (Reload g) = filter' g
   \<and> sortOrder (Reload g) = sortOrder g
   \<and> gridState (Reload g) = gridState g
   \<and> grid (Reload (Reload g)) = grid (Reload g)
   \<and> (searchText g2 = searchText g \<and> filter' g2 = filter' g \<and> sortOrder g2 = sortOrder g \<longrightarrow>
        drop (length (calls g2)) (calls (Reload g2)) = drop (length (calls g)) (calls (Reload g)))"
  by (simp add: Reload_def doSearch_fields Let_def getFilter_def getSortOrder_def Reset_def)

theorem Reload_idempotent_witness:
  "calls (Reload (Reload examplePage)) =
     calls examplePage @ [AdapterIter ''A-Z'' zeroAlbumFilter, GridReset,
                          AdapterIter ''A-Z'' zeroAlbumFilter, GridReset]
   \<and> calls (Reload (Reload exampleSearching)) =
     calls exampleSearching @ [AdapterSearchIter ''moon'' zeroAlbumFilter, GridReset,
                               AdapterSearchIter ''moon'' zeroAlbumFilter, GridReset]
   \<and> drop (length (calls (Reload exampleSearching))) (calls (Reload (Reload exampleSearching))) =
     drop (length (calls exampleSearching)) (calls (Reload exampleSearching))"
proof -
  note p = Reload_idempotent [where g = examplePage and ?g2.0 = examplePage]
  note q = Reload_idempotent [where g = exampleSearching and ?g2.0 = "Reload exampleSearching"]
  have h: "searchText (Reload exampleSearching) = searchText exampleSearching
      \<and> filter' (Reload exampleSearching) = filter' exampleSearching
      \<and> sortOrder (Reload exampleSearching) = sortOrder exampleSearching"
    using q by simp
  have d: "drop (length (calls (Reload exampleSearching))) (calls (Reload (Reload exampleSearching))) =
     drop (length (calls exampleSearching)) (calls (Reload exampleSearching))"
    using q h by blast
  have "calls (Reload (Reload examplePage)) =
     calls examplePage @ [AdapterIter ''A-Z'' zeroAlbumFilter, GridReset,
                          AdapterIter ''A-Z'' zeroAlbumFilter, GridReset]"
    using p by (simp add: Let_def examplePage_fields getFilter_def)
  moreover have "calls (Reload (Reload exampleSearching)) =
     calls exampleSearching @ [AdapterSearchIter ''moon'' zeroAlbumFilter, GridReset,
                               AdapterSearchIter ''moon'' zeroAlbumFilter, GridReset]"
    using q by (simp add: Let_def exampleSearching_fields getFilter_def)
  ultimately show ?thesis using d by simp
qed

subsection \<open>The filter button\<close>

text \<open>
  Claim C5. The constructor creates a filter button, and puts it into the header, if and
  only if the adapter's \<open>Filter\<close> result is not nil, whatever the filter holds: a zero-valued
  filter gets a button, nil gets none. The page keeps the pointer it was given.
\<close>

theorem filter_button_iff_filter:
  "(filterBtn (fst (NewGridViewPage adp pool mpr imr)) \<noteq> None) = (Filter adp \<noteq> None)
   \<and> (FilterItem \<in> set (container (fst (NewGridViewPage adp pool mpr imr)))) = (Filter adp \<noteq> None)
   \<and> filter' (fst (NewGridViewPage adp pool mpr imr)) = Filter adp"
  by (simp add: NewGridViewPage_fields NewGridViewPage_filterBtn NewGridViewPage_FilterItem
      split: option.split)

theorem filter_button_iff_filter_witness:
  "Filter exampleAdapter = Some zeroAlbumFilter
   \<and> filterBtn (fst (NewGridViewPage exampleAdapter [] 1 2)) \<noteq> None
   \<and> FilterItem \<in> set (container (fst (NewGridViewPage exampleAdapter [] 1 2)))
   \<and> filterBtn (fst (NewGridViewPage unfilteredAdapter [] 1 2)) = None
   \<and> FilterItem \<notin> set (container (fst (NewGridViewPage unfilteredAdapter [] 1 2)))"
  using filter_button_iff_filter [of exampleAdapter "[]" 1 2]
    filter_button_iff_filter [of unfilteredAdapter "[]" 1 2]
  by (simp add: exampleAdapter_def unfilteredAdapter_def)

section \<open>Properties of the main window\<close>

subsection \<open>The tenth of the volume\<close>

lemma round53_small: "m < 2 ^ 53 \<Longrightarrow> round53 m e = (m, e)"
  using bitlen_le [of m 53] by (simp add: round53_def)

text \<open>
  Rounding a quotient to nearest: the result is at least the floor, and exceeds the exact
  quotient by at most one half.
\<close>

lemma nearest_bounds:
  fixes n h q' :: nat
  assumes "0 < h"
    and "q' = (if n mod (2 * h) < h then n div (2 * h)
               else if h < n mod (2 * h) then n div (2 * h) + 1
               else if even (n div (2 * h)) then n div (2 * h) else n div (2 * h) + 1)"
  shows "n div (2 * h) \<le> q'" and "q' * (2 * h) \<le> n + h"
proof -
  let ?q = "n div (2 * h)" and ?r = "n mod (2 * h)"
  show "?q \<le> q'" by (simp add: assms(2))
  have n: "n = ?q * (2 * h) + ?r" by (rule div_mult_mod_eq [symmetric])
  show "q' * (2 * h) \<le> n + h"
  proof (cases "?r < h")
    case True
    then have "q' = ?q" by (simp add: assms(2))
    moreover have "?q * (2 * h) \<le> n" by simp
    then have "?q * (2 * h) \<le> n + h" by (rule trans_le_add1)
    ultimately show ?thesis by (simp only:)
  next
    case False
    have "q' \<le> ?q + 1" by (simp add: assms(2))
    then have "q' * (2 * h) \<le> (?q + 1) * (2 * h)" by (rule mult_le_mono1)
    also have "\<dots> = ?q * (2 * h) + 2 * h" by (simp add: algebra_simps)
    also have "\<dots> \<le> n + h" using False n by linarith
    finally show ?thesis .
  qed
qed

lemma tenth_nat:
  fixes a :: nat
  assumes a: "a < 2 ^ 52"
  shows "int_of_float64 (float64_mul (Float64 sg a 0) float64_tenth) =
           (if sg then - int (a div 10) else int (a div 10))"
proof -
  define N where "N = a * 3602879701896397"
  define k where "k = a div 10"
  define r where "r = a mod 10"
  have ar: "a = 10 * k + r" "r < 10" by (simp_all add: k_def r_def)
  have kb: "k \<le> 450359962737049" using a ar by simp
  have N: "N = k * 36028797018963970 + r * 3602879701896397"
    by (simp add: N_def ar(1) algebra_simps)
  have Nlo: "k * 2 ^ 55 \<le> N" by (simp add: N)
  show ?thesis
  proof (cases "bitlen N \<le> 53")
    case True
    have "N < 2 ^ 53" using bitlen_bound [of N] True
      by (meson less_le_trans power_increasing one_le_numeral)
    then have "k = 0" using Nlo by (cases k) simp_all
    moreover from \<open>N < 2 ^ 53\<close> have "N div 2 ^ 55 = 0" by simp
    ultimately show ?thesis using True
      by (simp add: float64_mul_def float64_tenth_def round53_def int_of_float64_def
          N_def [symmetric] k_def [symmetric] zdiv_int [symmetric] del: of_nat_mult)
  next
    case False
    define s where "s = bitlen N - 53"
    define h :: nat where "h = 2 ^ (s - 1)"
    define d :: nat where "d = 2 ^ s"
    define t :: nat where "t = 2 ^ (55 - s)"
    define q where "q = N div d"
    define q' where "q' = (if N mod d < h then q else if h < N mod d then q + 1
                           else if even q then q else q + 1)"
    have s1: "1 \<le> s" using False by (simp add: s_def)
    have "N < 2 ^ 104"
    proof -
      have "N < 2 ^ 52 * 2 ^ 52" unfolding N_def
        by (rule mult_strict_mono) (use a in simp_all)
      then show ?thesis by (simp add: power_add [symmetric])
    qed
    then have "bitlen N \<le> 104" by (rule bitlen_le)
    then have s51: "s \<le> 51" by (simp add: s_def)
    have dh: "d = 2 * h" using s1 by (simp add: d_def h_def power_eq_if)
    have hpos: "0 < h" by (simp add: h_def)
    have hb: "h \<le> 2 ^ 50"
      unfolding h_def by (rule power_increasing) (use s51 in simp_all)
    have dt: "t * d = 2 ^ 55" using s51 by (simp add: t_def d_def power_add [symmetric])
    have q'eq: "q' = (if N mod (2 * h) < h then N div (2 * h)
               else if h < N mod (2 * h) then N div (2 * h) + 1
               else if even (N div (2 * h)) then N div (2 * h) else N div (2 * h) + 1)"
      by (simp add: q'_def q_def dh)
    have lo: "q \<le> q'" and hi: "q' * d \<le> N + h"
      using nearest_bounds [OF hpos q'eq] by (simp_all add: q_def dh)
    have "(k * t) * d \<le> N" using Nlo dt by (simp add: mult.assoc)
    then have "k * t \<le> q" unfolding q_def
      by (metis div_le_mono div_mult_self_is_m dh hpos mult_pos_pos zero_less_numeral)
    with lo have L: "t * k \<le> q'" by (simp add: mult.commute)
    have "N + h < (k + 1) * 2 ^ 55" using N ar(2) kb hb by simp
    also have "\<dots> = ((k + 1) * t) * d" by (simp only: mult.assoc dt)
    finally have "N + h < ((k + 1) * t) * d" .
    with hi have "q' * d < ((k + 1) * t) * d" by (rule le_less_trans)
    then have "q' < (k + 1) * t" by (simp only: mult_less_cancel2)
    then have U: "q' < t * Suc k" by (simp add: mult.commute)
    have qk: "q' div t = k" using L U by (rule div_nat_eqI)
    have e: "nat (55 - int s) = 55 - s" using s51 by simp
    have "round53 N (- 55) = (q', - 55 + int s)"
      unfolding round53_def Let_def q'_def q_def d_def h_def s_def using False by simp
    moreover have "int q' div 2 ^ (55 - s) = int k"
      unfolding qk [symmetric] t_def by (simp add: zdiv_int)
    ultimately show ?thesis using s51
      by (simp add: float64_mul_def float64_tenth_def int_of_float64_def N_def [symmetric]
          k_def [symmetric] e del: of_nat_mult)
  qed
qed

lemma tenth_int:
  assumes "\<bar>v\<bar> < 2 ^ 52"
  shows "int_of_float64 (float64_mul (float64_of_int v) float64_tenth) = truncTenth v"
proof -
  define a where "a = nat \<bar>v\<bar>"
  have a: "a < 2 ^ 52" using assms by (simp add: a_def nat_less_iff)
  then have "a < 2 ^ 53" by (rule less_le_trans) simp
  then have f: "float64_of_int v = Float64 (v < 0) a 0"
    by (simp add: float64_of_int_def a_def [symmetric] round53_small)
  have "int (a div 10) = \<bar>v\<bar> div 10" by (simp add: a_def zdiv_int)
  then show ?thesis
    unfolding f tenth_nat [OF a] by (simp add: truncTenth_def sgn_if)
qed

lemma goInt_id: "- (2 ^ 63) \<le> x \<Longrightarrow> x < 2 ^ 63 \<Longrightarrow> goInt x = x"
  by (simp add: goInt_def)

text \<open>
  Claim C8. Each activation of the item "Volume +10%" reads the volume \<open>v\<close> and calls
  \<open>SetVolume\<close> with \<open>v\<close> plus the tenth of \<open>v\<close> truncated towards zero; "Volume -10%" with \<open>v\<close> minus
  it. The item passes the sum on unclamped: the range is the backend's concern. The
  \<open>float64\<close> product of the source is the exact truncated tenth for every volume below
  \<open>2 ^ 52\<close> in magnitude, a range that holds every volume a player can have.
\<close>

theorem volume_items_nudge:
  assumes "\<bar>Volume pmgr pm\<bar> < 2 ^ 52"
  shows "volumeUpItem pmgr pm =
           SetVolume pmgr (Volume pmgr pm + truncTenth (Volume pmgr pm)) pm
       \<and> volumeDownItem pmgr pm =
           SetVolume pmgr (Volume pmgr pm - truncTenth (Volume pmgr pm)) pm"
proof -
  let ?v = "Volume pmgr pm"
  have "\<bar>?v\<bar> div 10 \<le> \<bar>?v\<bar>" by presburger
  then have t: "\<bar>truncTenth ?v\<bar> \<le> \<bar>?v\<bar>"
    by (simp add: truncTenth_def abs_mult)
  have "goInt (?v + truncTenth ?v) = ?v + truncTenth ?v"
    "goInt (?v - truncTenth ?v) = ?v - truncTenth ?v"
    using assms t by (simp_all add: goInt_id)
  then show ?thesis
    by (simp add: volumeUpItem_def volumeDownItem_def Let_def tenth_int [OF assms])
qed


theorem volume_items_nudge_witness:
  "volumeUpItem examplePlayback 50 = 55 \<and> volumeDownItem examplePlayback 50 = 45
   \<and> volumeUpItem examplePlayback 95 = 100 \<and> volumeDownItem examplePlayback 5 = 5"
proof -
  have h: "\<bar>Volume examplePlayback 50\<bar> < 2 ^ 52" "\<bar>Volume examplePlayback 95\<bar> < 2 ^ 52"
    "\<bar>Volume examplePlayback 5\<bar> < 2 ^ 52"
    by (simp_all add: examplePlayback_def)
  show ?thesis
    using volume_items_nudge [OF h(1)] volume_items_nudge [OF h(2)] volume_items_nudge [OF h(3)]
    by (simp add: examplePlayback_def truncTenth_def)
qed

subsection \<open>New-version notification\<close>

lemma promptedTags_Show:
  "promptedTags (ShowNewVersionDialog appName t m) = promptedTags m @ [t]"
  "LastCheckedVersion (ShowNewVersionDialog appName t m) = LastCheckedVersion m"
  by (simp_all add: promptedTags_def ShowNewVersionDialog_def)

lemma promptedTags_update [simp]:
  "promptedTags (m\<lparr>LastCheckedVersion := t\<rparr>) = promptedTags m"
  "promptedTags (m\<lparr>updateCallbackSet := b\<rparr>) = promptedTags m"
  by (simp_all add: promptedTags_def)

text \<open>
  Claim C9 as stated fails for the periodic callback: with the tag \<open>v0.2.0\<close> stored by the
  startup path, the callback run with the same tag found queues the dialog again.
\<close>

theorem callback_prompts_stored_tag:
  "LastCheckedVersion (onServerConnected ''Supersonic'' ''v0.1.0'' ''v0.2.0'' freshWindow) = ''v0.2.0''
   \<and> promptedTags (onServerConnected ''Supersonic'' ''v0.1.0'' ''v0.2.0'' freshWindow) = [''v0.2.0'']
   \<and> promptedTags (OnUpdatedVersionFound ''Supersonic'' ''v0.1.0'' ''v0.2.0''
         (onServerConnected ''Supersonic'' ''v0.1.0'' ''v0.2.0'' freshWindow)) = [''v0.2.0'', ''v0.2.0'']"
  by (simp add: onServerConnected_def OnUpdatedVersionFound_def freshWindow_def Let_def
      promptedTags_Show) (simp add: promptedTags_def)

text \<open>
  Claim C9, amended. The startup path records every non-empty tag it finds and does not
  prompt for the tag that is stored: it prompts exactly for a non-empty tag that differs
  from the stored one and from the running version. The periodic callback records the
  tag it finds and prompts whenever that tag differs from the running version, without
  consulting the stored tag. Answering a dialog stores the tag it announced.
\<close>

theorem version_prompt_flow:
  "(t = LastCheckedVersion m \<longrightarrow>
      promptedTags (onServerConnected d a t m) = promptedTags m
      \<and> LastCheckedVersion (onServerConnected d a t m) = LastCheckedVersion m)
   \<and> (t \<noteq> [] \<longrightarrow> LastCheckedVersion (onServerConnected d a t m) = t)
   \<and> promptedTags (onServerConnected d a t m) =
        promptedTags m @ (if t \<noteq> [] \<and> t \<noteq> LastCheckedVersion m \<and> t \<noteq> a then [t] else [])
   \<and> LastCheckedVersion (OnUpdatedVersionFound d a t m) = t
   \<and> promptedTags (OnUpdatedVersionFound d a t m) = promptedTags m @ (if t \<noteq> a then [t] else [])
   \<and> LastCheckedVersion (dialogAnswered dlg b m) = dialogTag dlg"
  by (simp add: onServerConnected_def OnUpdatedVersionFound_def dialogAnswered_def Let_def
      promptedTags_Show)

theorem version_prompt_flow_witness:
  "promptedTags (onServerConnected ''Supersonic'' ''v0.1.0'' ''v0.2.0''
       (onServerConnected ''Supersonic'' ''v0.1.0'' ''v0.2.0'' freshWindow)) = [''v0.2.0'']
   \<and> LastCheckedVersion (onServerConnected ''Supersonic'' ''v0.1.0'' ''v0.2.0'' freshWindow) = ''v0.2.0''
   \<and> promptedTags (OnUpdatedVersionFound ''Supersonic'' ''v0.1.0'' ''v0.3.0'' freshWindow) = [''v0.3.0'']"
proof -
  let ?m = "onServerConnected ''Supersonic'' ''v0.1.0'' ''v0.2.0'' freshWindow"
  have h: "''v0.2.0'' \<noteq> []" by simp
  have s: "LastCheckedVersion ?m = ''v0.2.0''"
    using version_prompt_flow [where t = "''v0.2.0''" and m = freshWindow and d = "''Supersonic''"
        and a = "''v0.1.0''"] h
    by simp
  have p: "promptedTags ?m = [''v0.2.0'']"
    using version_prompt_flow [where t = "''v0.2.0''" and m = freshWindow and d = "''Supersonic''"
        and a = "''v0.1.0''"]
    by (simp add: freshWindow_def promptedTags_def)
  have "promptedTags (onServerConnected ''Supersonic'' ''v0.1.0'' ''v0.2.0'' ?m) = promptedTags ?m"
    using version_prompt_flow [where t = "''v0.2.0''" and m = ?m and d = "''Supersonic''"
        and a = "''v0.1.0''"] s
    by simp
  moreover have "promptedTags (OnUpdatedVersionFound ''Supersonic'' ''v0.1.0'' ''v0.3.0'' freshWindow) = [''v0.3.0'']"
    using version_prompt_flow [where t = "''v0.3.0''" and m = freshWindow and d = "''Supersonic''"
        and a = "''v0.1.0''"]
    by (simp add: freshWindow_def promptedTags_def)
  ultimately show ?thesis using s p by simp
qed

end
